theory Spec2Isabelle
  imports Main "HOL-Library.Word"
begin

section \<open>The fixture \<open>examples/bad-example.py\<close>\<close>

text \<open>
  The repository consists of one Python file of deliberately poor (and a few good)
  functions. Each function a property below is about is embedded here, with Python's
  unbounded integers as \<open>int\<close>, dictionaries as maps, raised exceptions as \<open>Inl\<close>
  results and the mutated module and file state passed explicitly.
\<close>

subsection \<open>Python values, dictionaries and exceptions\<close>

text \<open>
  The values the fixture handles: integers, floats, strings and \<open>None\<close>. A float is
  kept as its IEEE binary64 bit pattern. Floating-point arithmetic is not modelled:
  wherever an operator meets a float operand, the result is whatever the parameter
  standing for the interpreter's float arithmetic gives (a value or an exception, such
  as \<open>OverflowError\<close> for an integer too large to convert). Addition alone decides
  that one exception itself, before it asks the parameter.
\<close>

datatype pyval = VInt int | VFloat "64 word" | VStr string | VNone

datatype error =
    KeyError string
  | TypeError
  | OverflowError
  | FileNotFoundError string
  | JSONDecodeError string
  | UnicodeDecodeError
  | OSError

type_synonym 'a result = "error + 'a"

type_synonym pydict = "string \<rightharpoonup> pyval"

type_synonym binop = "pyval \<Rightarrow> pyval \<Rightarrow> pyval result"

text \<open>\<open>d[k]\<close>: a missing key raises \<open>KeyError\<close>.\<close>

definition getitem :: "pydict \<Rightarrow> string \<Rightarrow> pyval result" where
  "getitem d k = (case d k of None \<Rightarrow> Inl (KeyError k) | Some v \<Rightarrow> Inr v)"

text \<open>
  An integer that meets a float is converted to a float first, rounding to nearest
  (ties to even). The largest finite float is \<open>2 ^ 1024 - 2 ^ 971\<close>; an integer of
  magnitude \<open>2 ^ 1024 - 2 ^ 970\<close> or more rounds beyond it, and the conversion raises
  \<open>OverflowError\<close>.
\<close>

definition too_large_for_float :: "int \<Rightarrow> bool" where
  "too_large_for_float n = (2 ^ 1024 - 2 ^ 970 \<le> \<bar>n\<bar>)"

text \<open>\<open>v + w\<close>: exact on integers, concatenation on strings, \<open>TypeError\<close> where the
  types do not fit. Where a float meets a number: \<open>OverflowError\<close> when the number is
  an integer too large for a float, and \<open>fadd\<close> otherwise.\<close>

fun py_add :: "binop \<Rightarrow> pyval \<Rightarrow> pyval \<Rightarrow> pyval result" where
  "py_add fadd (VInt a) (VInt b) = Inr (VInt (a + b))"
| "py_add fadd (VInt a) (VFloat b) =
     (if too_large_for_float a then Inl OverflowError else fadd (VInt a) (VFloat b))"
| "py_add fadd (VFloat a) (VInt b) =
     (if too_large_for_float b then Inl OverflowError else fadd (VFloat a) (VInt b))"
| "py_add fadd (VFloat a) (VFloat b) = fadd (VFloat a) (VFloat b)"
| "py_add fadd (VStr a) (VStr b) = Inr (VStr (a @ b))"
| "py_add fadd v w = Inl TypeError"

text \<open>\<open>v * c\<close> for a float \<open>c\<close>: \<open>fmul\<close> on a number, \<open>TypeError\<close> on a string or
  \<open>None\<close>.\<close>

fun times_float :: "binop \<Rightarrow> pyval \<Rightarrow> 64 word \<Rightarrow> pyval result" where
  "times_float fmul (VInt a) c = fmul (VInt a) (VFloat c)"
| "times_float fmul (VFloat a) c = fmul (VFloat a) (VFloat c)"
| "times_float fmul (VStr a) c = Inl TypeError"
| "times_float fmul VNone c = Inl TypeError"

text \<open>\<open>v == w\<close>: \<open>feq\<close> where a float meets a number; otherwise two values are equal
  when they are the same integer, the same string or both \<open>None\<close>.\<close>

fun py_eq :: "(pyval \<Rightarrow> pyval \<Rightarrow> bool) \<Rightarrow> pyval \<Rightarrow> pyval \<Rightarrow> bool" where
  "py_eq feq (VInt a) (VFloat b) = feq (VInt a) (VFloat b)"
| "py_eq feq (VFloat a) (VInt b) = feq (VFloat a) (VInt b)"
| "py_eq feq (VFloat a) (VFloat b) = feq (VFloat a) (VFloat b)"
| "py_eq feq v w = (v = w)"

text \<open>The float literals \<open>1.1\<close> and \<open>1.2\<close>: the binary64 numbers nearest to them.\<close>

definition float_1_1 :: "64 word" where
  "float_1_1 = 0x3FF199999999999A"

definition float_1_2 :: "64 word" where
  "float_1_2 = 0x3FF3333333333333"

subsection \<open>\<open>Calculate_Total\<close> (lines 11--16)\<close>

fun Calculate_Total_loop :: "binop \<Rightarrow> pyval \<Rightarrow> pydict list \<Rightarrow> pyval result" where
  "Calculate_Total_loop fadd t [] = Inr t"
| "Calculate_Total_loop fadd t (i # items) =
     (case getitem i ''price'' of
        Inl e \<Rightarrow> Inl e
      | Inr price \<Rightarrow>
          (case py_add fadd t price of
             Inl e \<Rightarrow> Inl e
           | Inr t' \<Rightarrow> Calculate_Total_loop fadd t' items))"

definition Calculate_Total :: "binop \<Rightarrow> pydict list \<Rightarrow> pyval result" where
  "Calculate_Total fadd items = Calculate_Total_loop fadd (VInt 0) items"

subsection \<open>\<open>process_data\<close> (lines 19--31) and \<open>filter_data\<close> (lines 34--45)\<close>

text \<open>
  The first argument of each loop is the list built so far (\<open>results\<close>, \<open>filtered\<close>).
  The fields of the new dictionary are evaluated in the order written, so the first
  missing key is the one reported.
\<close>

fun process_data_loop :: "binop \<Rightarrow> pydict list \<Rightarrow> pydict list \<Rightarrow> pydict list result" where
  "process_data_loop fmul results [] = Inr results"
| "process_data_loop fmul results (item # data) =
     (case getitem item ''status'' of
        Inl e \<Rightarrow> Inl e
      | Inr status \<Rightarrow>
          if status = VStr ''active'' then
            (case getitem item ''id'' of Inl e \<Rightarrow> Inl e | Inr item_id \<Rightarrow>
            (case getitem item ''name'' of Inl e \<Rightarrow> Inl e | Inr name \<Rightarrow>
            (case getitem item ''value'' of Inl e \<Rightarrow> Inl e | Inr val \<Rightarrow>
            (case times_float fmul val float_1_1 of Inl e \<Rightarrow> Inl e | Inr scaled \<Rightarrow>
               process_data_loop fmul
                 (results @ [[''id'' \<mapsto> item_id, ''name'' \<mapsto> name, ''value'' \<mapsto> scaled]])
                 data))))
          else process_data_loop fmul results data)"

definition process_data :: "binop \<Rightarrow> pydict list \<Rightarrow> pydict list result" where
  "process_data fmul data = process_data_loop fmul [] data"

fun filter_data_loop :: "binop \<Rightarrow> pydict list \<Rightarrow> pydict list \<Rightarrow> pydict list result" where
  "filter_data_loop fmul filtered [] = Inr filtered"
| "filter_data_loop fmul filtered (item # data) =
     (case getitem item ''status'' of
        Inl e \<Rightarrow> Inl e
      | Inr status \<Rightarrow>
          if status = VStr ''pending'' then
            (case getitem item ''id'' of Inl e \<Rightarrow> Inl e | Inr item_id \<Rightarrow>
            (case getitem item ''name'' of Inl e \<Rightarrow> Inl e | Inr name \<Rightarrow>
            (case getitem item ''value'' of Inl e \<Rightarrow> Inl e | Inr val \<Rightarrow>
            (case times_float fmul val float_1_2 of Inl e \<Rightarrow> Inl e | Inr scaled \<Rightarrow>
               filter_data_loop fmul
                 (filtered @ [[''id'' \<mapsto> item_id, ''name'' \<mapsto> name, ''value'' \<mapsto> scaled]])
                 data))))
          else filter_data_loop fmul filtered data)"

definition filter_data :: "binop \<Rightarrow> pydict list \<Rightarrow> pydict list result" where
  "filter_data fmul data = filter_data_loop fmul [] data"

text \<open>
  The one function of a status literal and a multiplier of which both are instances:
  keep the items with the given status; copy \<open>id\<close> and \<open>name\<close>, scale \<open>value\<close>.
\<close>

fun select_and_scale_loop ::
  "binop \<Rightarrow> string \<Rightarrow> 64 word \<Rightarrow> pydict list \<Rightarrow> pydict list \<Rightarrow> pydict list result" where
  "select_and_scale_loop fmul wanted factor acc [] = Inr acc"
| "select_and_scale_loop fmul wanted factor acc (item # data) =
     (case getitem item ''status'' of
        Inl e \<Rightarrow> Inl e
      | Inr status \<Rightarrow>
          if status = VStr wanted then
            (case getitem item ''id'' of Inl e \<Rightarrow> Inl e | Inr item_id \<Rightarrow>
            (case getitem item ''name'' of Inl e \<Rightarrow> Inl e | Inr name \<Rightarrow>
            (case getitem item ''value'' of Inl e \<Rightarrow> Inl e | Inr val \<Rightarrow>
            (case times_float fmul val factor of Inl e \<Rightarrow> Inl e | Inr scaled \<Rightarrow>
               select_and_scale_loop fmul wanted factor
                 (acc @ [[''id'' \<mapsto> item_id, ''name'' \<mapsto> name, ''value'' \<mapsto> scaled]])
                 data))))
          else select_and_scale_loop fmul wanted factor acc data)"

definition select_and_scale ::
  "binop \<Rightarrow> string \<Rightarrow> 64 word \<Rightarrow> pydict list \<Rightarrow> pydict list result" where
  "select_and_scale fmul wanted factor data = select_and_scale_loop fmul wanted factor [] data"

subsection \<open>\<open>complex_calculation\<close> (lines 48--68)\<close>

text \<open>
  The body of \<open>complex_calculation\<close> consists of \<open>if\<close>/\<open>else\<close> statements and
  \<open>return\<close> statements only. It is kept as a statement tree, so that its decision
  points can be counted and the \<open>return\<close> that ends a call can be named: every
  \<open>Return\<close> carries the number of its source line. Conditions and returned expressions
  are functions of the three arguments.
\<close>

type_synonym args = "int \<times> int \<times> int"

datatype stmt =
    Return nat "args \<Rightarrow> int"
  | IfElse "args \<Rightarrow> bool" stmt stmt

text \<open>Running a statement gives the line of the \<open>return\<close> reached and the value returned.\<close>

fun exec :: "stmt \<Rightarrow> args \<Rightarrow> nat \<times> int" where
  "exec (Return l e) a = (l, e a)"
| "exec (IfElse c s1 s2) a = (if c a then exec s1 a else exec s2 a)"

text \<open>Decision points: one for each conditional.\<close>

fun decision_points :: "stmt \<Rightarrow> nat" where
  "decision_points (Return l e) = 0"
| "decision_points (IfElse c s1 s2) = 1 + decision_points s1 + decision_points s2"

text \<open>Nesting depth of the conditionals.\<close>

fun nesting :: "stmt \<Rightarrow> nat" where
  "nesting (Return l e) = 0"
| "nesting (IfElse c s1 s2) = 1 + max (nesting s1) (nesting s2)"

definition complex_calculation_body :: stmt where
  "complex_calculation_body =
     IfElse (\<lambda>(x, y, z). x > 0)
       (IfElse (\<lambda>(x, y, z). y > 0)
         (IfElse (\<lambda>(x, y, z). z > 0)
           (IfElse (\<lambda>(x, y, z). x > y)
             (IfElse (\<lambda>(x, y, z). y > z)
               (IfElse (\<lambda>(x, y, z). x > z)
                 (Return 56 (\<lambda>(x, y, z). x * y * z))
                 (Return 58 (\<lambda>(x, y, z). x + y + z)))
               (Return 60 (\<lambda>(x, y, z). x - y - z)))
             (Return 62 (\<lambda>(x, y, z). y * z)))
           (Return 64 (\<lambda>(x, y, z). x + y)))
         (Return 66 (\<lambda>(x, y, z). x)))
       (Return 68 (\<lambda>(x, y, z). 0))"

definition complex_calculation :: "int \<Rightarrow> int \<Rightarrow> int \<Rightarrow> int" where
  "complex_calculation x y z = snd (exec complex_calculation_body (x, y, z))"

definition complex_calculation_line :: "int \<Rightarrow> int \<Rightarrow> int \<Rightarrow> nat" where
  "complex_calculation_line x y z = fst (exec complex_calculation_body (x, y, z))"

text \<open>The reference definition, in the words of the specification's complexity example.\<close>

definition complex_calculation_reference :: "int \<Rightarrow> int \<Rightarrow> int \<Rightarrow> int" where
  "complex_calculation_reference x y z =
     (if x > 0 then
        (if y > 0 then
           (if z > 0 then
              (if x > y then
                 (if y > z then
                    (if x > z then x * y * z else x + y + z)
                  else x - y - z)
               else y * z)
            else x + y)
         else x)
      else 0)"

subsection \<open>\<open>increment_counter\<close> (lines 71--77)\<close>

text \<open>
  The module's state: the variable \<open>global_counter\<close>, an integer, and whatever else is
  bound at module level, which is the record's extension part.
\<close>

record module_state =
  global_counter :: int

definition module_init :: module_state where
  "module_init = \<lparr>global_counter = 0\<rparr>"

text \<open>A call returns its value and the module state it leaves.\<close>

definition increment_counter :: "'a module_state_scheme \<Rightarrow> int \<times> 'a module_state_scheme" where
  "increment_counter m =
     (let m' = m\<lparr>global_counter := global_counter m + 1\<rparr>
      in (global_counter m', m'))"

subsection \<open>\<open>risky_function\<close> (lines 80--85) and \<open>read_config_file\<close> (lines 137--157)\<close>

text \<open>
  What \<open>open(filename, 'r')\<close> does is a parameter: it raises, or gives a file whose
  \<open>read()\<close> in turn raises or gives the content. The state passed along holds the
  files currently held open and the log of the calls made on files, oldest first.
  A file is released by \<open>close()\<close> only: by an explicit call, or by the \<open>with\<close>
  statement on leaving its block.
\<close>

type_synonym file_object = "string result"

type_synonym filesystem = "string \<Rightarrow> file_object result"

datatype call = Open string | Read string | Close string

record io_state =
  held :: "string list"
  calls :: "call list"

definition py_open :: "filesystem \<Rightarrow> string \<Rightarrow> io_state \<Rightarrow> file_object result \<times> io_state" where
  "py_open fs filename s =
     (case fs filename of
        Inl e \<Rightarrow> (Inl e, s\<lparr>calls := calls s @ [Open filename]\<rparr>)
      | Inr file \<Rightarrow>
          (Inr file, s\<lparr>held := filename # held s, calls := calls s @ [Open filename]\<rparr>))"

definition file_read :: "file_object \<Rightarrow> string \<Rightarrow> io_state \<Rightarrow> string result \<times> io_state" where
  "file_read file filename s = (file, s\<lparr>calls := calls s @ [Read filename]\<rparr>)"

definition file_close :: "string \<Rightarrow> io_state \<Rightarrow> io_state" where
  "file_close filename s =
     s\<lparr>held := remove1 filename (held s), calls := calls s @ [Close filename]\<rparr>"

definition risky_function :: "filesystem \<Rightarrow> string \<Rightarrow> io_state \<Rightarrow> string result \<times> io_state" where
  "risky_function fs filename s =
     (case py_open fs filename s of
        (Inl e, s1) \<Rightarrow> (Inl e, s1)
      | (Inr file, s1) \<Rightarrow>
          (case file_read file filename s1 of
             (Inl e, s2) \<Rightarrow> (Inl e, s2)
           | (Inr content, s2) \<Rightarrow> (Inr content, file_close filename s2)))"

text \<open>\<open>json.load(file)\<close> reads the file and parses the text; the parser is a parameter.\<close>

definition json_load ::
  "(string \<Rightarrow> 'j result) \<Rightarrow> file_object \<Rightarrow> string \<Rightarrow> io_state \<Rightarrow> 'j result \<times> io_state" where
  "json_load loads file filename s =
     (case file_read file filename s of
        (Inl e, s1) \<Rightarrow> (Inl e, s1)
      | (Inr content, s1) \<Rightarrow> (loads content, s1))"

text \<open>The \<open>with\<close> block: the file is closed when the block is left, by \<open>return\<close> or by
  an exception; when \<open>open\<close> itself raises there is no file to close.\<close>

definition with_open_json_load ::
  "filesystem \<Rightarrow> (string \<Rightarrow> 'j result) \<Rightarrow> string \<Rightarrow> io_state \<Rightarrow> 'j result \<times> io_state" where
  "with_open_json_load fs loads filename s =
     (case py_open fs filename s of
        (Inl e, s1) \<Rightarrow> (Inl e, s1)
      | (Inr file, s1) \<Rightarrow>
          (case json_load loads file filename s1 of
             (r, s2) \<Rightarrow> (r, file_close filename s2)))"

text \<open>
  The two handlers of the \<open>try\<close> statement. The second one calls
  \<open>json.JSONDecodeError\<close> with the message alone, without the document and the position
  its constructor requires, so what leaves the handler is a \<open>TypeError\<close>.
\<close>

definition read_config_file ::
  "filesystem \<Rightarrow> (string \<Rightarrow> 'j result) \<Rightarrow> string \<Rightarrow> io_state \<Rightarrow> 'j result \<times> io_state" where
  "read_config_file fs loads filename s =
     (case with_open_json_load fs loads filename s of
        (Inl (FileNotFoundError m), s1) \<Rightarrow>
          (Inl (FileNotFoundError (''Configuration file not found: '' @ filename)), s1)
      | (Inl (JSONDecodeError m), s1) \<Rightarrow> (Inl TypeError, s1)
      | (r, s1) \<Rightarrow> (r, s1))"

subsection \<open>\<open>user_manager\<close> (lines 98--115)\<close>

record user_manager =
  users :: "pydict list"

definition user_manager_init :: user_manager where
  "user_manager_init = \<lparr>users = []\<rparr>"

definition add_usr :: "user_manager \<Rightarrow> pydict \<Rightarrow> user_manager" where
  "add_usr self user = self\<lparr>users := users self @ [user]\<rparr>"

text \<open>The loop of \<open>get_user_by_id\<close>; \<open>None\<close> is Python's \<open>None\<close>.\<close>

fun get_user_by_id_loop ::
  "(pyval \<Rightarrow> pyval \<Rightarrow> bool) \<Rightarrow> pydict list \<Rightarrow> pyval \<Rightarrow> pydict option result" where
  "get_user_by_id_loop feq [] ident = Inr None"
| "get_user_by_id_loop feq (u # us) ident =
     (case getitem u ''id'' of
        Inl e \<Rightarrow> Inl e
      | Inr v \<Rightarrow> if py_eq feq v ident then Inr (Some u) else get_user_by_id_loop feq us ident)"

definition get_user_by_id ::
  "(pyval \<Rightarrow> pyval \<Rightarrow> bool) \<Rightarrow> user_manager \<Rightarrow> pyval \<Rightarrow> pydict option result" where
  "get_user_by_id feq self ident = get_user_by_id_loop feq (users self) ident"

text \<open>A stored user has the identifier \<open>ident\<close>: it carries an \<open>id\<close> equal to it.\<close>

definition has_id :: "(pyval \<Rightarrow> pyval \<Rightarrow> bool) \<Rightarrow> pyval \<Rightarrow> pydict \<Rightarrow> bool" where
  "has_id feq ident u = (case u ''id'' of None \<Rightarrow> False | Some v \<Rightarrow> py_eq feq v ident)"

subsection \<open>Predicates and sample inputs\<close>



text \<open>A stored user carries an \<open>id\<close> key.\<close>

definition carries_id :: "pydict \<Rightarrow> bool" where
  "carries_id u = (u ''id'' \<noteq> None)"

text \<open>The stored users that come before the first one with the identifier \<open>ident\<close>.\<close>

definition before_match ::
  "(pyval \<Rightarrow> pyval \<Rightarrow> bool) \<Rightarrow> pyval \<Rightarrow> pydict list \<Rightarrow> pydict list" where
  "before_match feq ident us = takeWhile (\<lambda>u. \<not> has_id feq ident u) us"


definition no_float_eq :: "pyval \<Rightarrow> pyval \<Rightarrow> bool" where
  "no_float_eq v w = False"

definition sample_fmul :: binop where
  "sample_fmul v w =
     (if v = VInt 10 \<and> w = VFloat float_1_1 then Inr (VFloat 0x4026000000000000)
      else if v = VInt 5 \<and> w = VFloat float_1_2 then Inr (VFloat 0x4018000000000000)
      else Inl OverflowError)"



definition float_0_1 :: "64 word" where
  "float_0_1 = 0x3FB999999999999A"

definition float_0_2 :: "64 word" where
  "float_0_2 = 0x3FC999999999999A"

definition sample_fadd :: binop where
  "sample_fadd v w =
     (if v = VInt 0 \<and> w = VFloat float_0_1 then Inr (VFloat float_0_1)
      else if v = VFloat float_0_1 \<and> w = VFloat float_0_2 then Inr (VFloat 0x3FD3333333333334)
      else Inl TypeError)"


definition float_items :: "pydict list" where
  "float_items = [[''price'' \<mapsto> VFloat float_0_1], [''price'' \<mapsto> VFloat float_0_2]]"

definition sample_data :: "pydict list" where
  "sample_data =
     [[''status'' \<mapsto> VStr ''active'', ''id'' \<mapsto> VInt 1, ''name'' \<mapsto> VStr ''a'',
       ''value'' \<mapsto> VInt 10],
      [''status'' \<mapsto> VStr ''pending'', ''id'' \<mapsto> VInt 2, ''name'' \<mapsto> VStr ''b'',
       ''value'' \<mapsto> VInt 5],
      [''status'' \<mapsto> VStr ''closed'']]"

text \<open>A disk with a file that cannot be decoded and a file that is not valid JSON; a
  parser that accepts \<open>null\<close> only; no file held open.\<close>

definition sample_disk :: filesystem where
  "sample_disk filename =
     (if filename = ''data.bin'' then Inr (Inl UnicodeDecodeError)
      else if filename = ''config.json'' then Inr (Inr ''{'')
      else Inl (FileNotFoundError filename))"

definition sample_loads :: "string \<Rightarrow> unit result" where
  "sample_loads content = (if content = ''null'' then Inr () else Inl (JSONDecodeError content))"

definition idle :: io_state where
  "idle = \<lparr>held = [], calls = []\<rparr>"

definition ann :: pydict where
  "ann = [''id'' \<mapsto> VInt 1, ''name'' \<mapsto> VStr ''ann'']"

definition bob :: pydict where
  "bob = [''id'' \<mapsto> VInt 2, ''name'' \<mapsto> VStr ''bob'']"

definition anonymous :: pydict where
  "anonymous = [''name'' \<mapsto> VStr ''nobody'']"

section \<open>Properties\<close>

subsection \<open>The complexity example\<close>

text \<open>
  C1. \<open>complex_calculation\<close> is the six-level nested conditional of the specification:
  on all integer arguments it returns what the reference definition returns, and its
  body has six conditionals, nested six deep.
\<close>

theorem complex_calculation_is_reference:
  "complex_calculation x y z = complex_calculation_reference x y z
   \<and> decision_points complex_calculation_body = 6
   \<and> nesting complex_calculation_body = 6"
  by (simp add: complex_calculation_def complex_calculation_reference_def
      complex_calculation_body_def)

theorem complex_calculation_is_reference_witness:
  "complex_calculation 3 2 1 = 6 \<and> complex_calculation_reference 3 2 1 = 6
   \<and> complex_calculation 2 3 4 = 12 \<and> complex_calculation_reference 2 3 4 = 12"
  using complex_calculation_is_reference [of 3 2 1] complex_calculation_is_reference [of 2 3 4]
  by (simp add: complex_calculation_reference_def)

text \<open>
  C7. The \<open>else\<close> branch on line 58, returning \<open>x + y + z\<close>, is unreachable: when the
  five outer tests hold the innermost test \<open>x > z\<close> holds too, and no call returns
  through line 58.
\<close>

theorem complex_calculation_line_58_unreachable:
  "(x > 0 \<and> y > 0 \<and> z > 0 \<and> x > y \<and> y > z \<longrightarrow> x > z)
   \<and> complex_calculation_line x y z \<noteq> 58"
  by (simp add: complex_calculation_line_def complex_calculation_body_def)

theorem complex_calculation_line_58_unreachable_witness:
  "(3::int) > 0 \<and> (2::int) > 0 \<and> (1::int) > 0 \<and> (3::int) > 2 \<and> (2::int) > 1
   \<and> (3::int) > 1
   \<and> complex_calculation_line 3 2 1 = 56
   \<and> complex_calculation_line 3 2 1 \<noteq> 58"
  using complex_calculation_line_58_unreachable [of 3 2 1]
  by (simp add: complex_calculation_line_def complex_calculation_body_def)

subsection \<open>The global counter\<close>

text \<open>
  C2. Whatever integer \<open>global_counter\<close> holds, one call of \<open>increment_counter\<close> returns
  that integer plus one, leaves it in \<open>global_counter\<close>, and changes nothing else of the
  module's state.
\<close>

theorem increment_counter_effect:
  "increment_counter m = (global_counter m + 1, m\<lparr>global_counter := global_counter m + 1\<rparr>)
   \<and> global_counter (snd (increment_counter m)) = global_counter m + 1
   \<and> module_state.more (snd (increment_counter m)) = module_state.more m"
  by (simp add: increment_counter_def Let_def)

theorem increment_counter_effect_witness:
  "increment_counter module_init = (1, \<lparr>global_counter = 1\<rparr>)"
  using increment_counter_effect [of module_init]
  by (simp add: module_init_def)

subsection \<open>The duplicated loops\<close>

lemma process_data_loop_instance:
  "process_data_loop fmul acc data = select_and_scale_loop fmul ''active'' float_1_1 acc data"
  by (induction data arbitrary: acc) (simp_all split: sum.splits)

lemma filter_data_loop_instance:
  "filter_data_loop fmul acc data = select_and_scale_loop fmul ''pending'' float_1_2 acc data"
  by (induction data arbitrary: acc) (simp_all split: sum.splits)

text \<open>
  C3. \<open>process_data\<close> and \<open>filter_data\<close> differ in their two literals only: on every
  input list, and whatever float multiplication does, \<open>process_data\<close> is
  \<open>select_and_scale\<close> at \<open>'active'\<close> and \<open>1.1\<close>, and \<open>filter_data\<close> is
  \<open>select_and_scale\<close> at \<open>'pending'\<close> and \<open>1.2\<close>, in the lists they return and in the
  exceptions they raise.
\<close>

theorem process_data_filter_data_instances:
  "process_data fmul data = select_and_scale fmul ''active'' float_1_1 data
   \<and> filter_data fmul data = select_and_scale fmul ''pending'' float_1_2 data"
  by (simp add: process_data_def filter_data_def select_and_scale_def
      process_data_loop_instance filter_data_loop_instance)

theorem process_data_filter_data_instances_witness:
  "process_data sample_fmul sample_data =
     Inr [[''id'' \<mapsto> VInt 1, ''name'' \<mapsto> VStr ''a'', ''value'' \<mapsto> VFloat 0x4026000000000000]]
   \<and> select_and_scale sample_fmul ''active'' float_1_1 sample_data =
     Inr [[''id'' \<mapsto> VInt 1, ''name'' \<mapsto> VStr ''a'', ''value'' \<mapsto> VFloat 0x4026000000000000]]
   \<and> filter_data sample_fmul sample_data =
     Inr [[''id'' \<mapsto> VInt 2, ''name'' \<mapsto> VStr ''b'', ''value'' \<mapsto> VFloat 0x4018000000000000]]
   \<and> select_and_scale sample_fmul ''pending'' float_1_2 sample_data =
     Inr [[''id'' \<mapsto> VInt 2, ''name'' \<mapsto> VStr ''b'', ''value'' \<mapsto> VFloat 0x4018000000000000]]"
  using process_data_filter_data_instances [of sample_fmul sample_data]
  by (simp add: select_and_scale_def sample_fmul_def sample_data_def getitem_def
      float_1_1_def float_1_2_def)

lemma process_data_missing_key:
  "process_data fmul [[''status'' \<mapsto> VStr ''active'', ''id'' \<mapsto> VInt 1]] = Inl (KeyError ''name'')"
  by (simp add: process_data_def getitem_def)

subsection \<open>Files\<close>

lemma risky_function_read_raises:
  "fs filename = Inr (Inl e) \<Longrightarrow>
   risky_function fs filename s =
     (Inl e, s\<lparr>held := filename # held s, calls := calls s @ [Open filename, Read filename]\<rparr>)"
  by (simp add: risky_function_def py_open_def file_read_def)

lemma with_open_json_load_held:
  "held (snd (with_open_json_load fs loads filename s)) = held s"
  by (simp add: with_open_json_load_def py_open_def json_load_def file_read_def file_close_def
      split: sum.splits prod.splits)

lemma with_open_json_load_calls:
  "fs filename = Inr file \<Longrightarrow>
   calls (snd (with_open_json_load fs loads filename s)) =
     calls s @ [Open filename, Read filename, Close filename]"
  by (simp add: with_open_json_load_def py_open_def json_load_def file_read_def file_close_def
      split: sum.splits prod.splits)

lemma read_config_file_state:
  "snd (read_config_file fs loads filename s) = snd (with_open_json_load fs loads filename s)"
  by (simp add: read_config_file_def split: prod.splits sum.splits error.splits)

text \<open>
  C4. When \<open>open\<close> succeeds and \<open>read\<close> raises, \<open>risky_function\<close> passes the exception
  on with the file still held: the calls made are \<open>open\<close> and \<open>read\<close>, never \<open>close\<close>.
  \<open>read_config_file\<close> holds no file when it is left, whichever way it is left; when
  \<open>open\<close> succeeded, the file was read and then closed, also when reading or parsing
  raised.
\<close>

theorem risky_function_leaks_read_config_file_releases:
  "(fs filename = Inr (Inl e) \<longrightarrow>
      risky_function fs filename s =
        (Inl e, s\<lparr>held := filename # held s,
                   calls := calls s @ [Open filename, Read filename]\<rparr>))
   \<and> held (snd (read_config_file fs loads filename s)) = held s
   \<and> (fs filename = Inr file \<longrightarrow>
        calls (snd (read_config_file fs loads filename s)) =
          calls s @ [Open filename, Read filename, Close filename])"
  by (simp add: risky_function_read_raises read_config_file_state with_open_json_load_held
      with_open_json_load_calls)

theorem risky_function_leaks_read_config_file_releases_witness:
  "sample_disk ''data.bin'' = Inr (Inl UnicodeDecodeError)
   \<and> risky_function sample_disk ''data.bin'' idle =
       (Inl UnicodeDecodeError,
        \<lparr>held = [''data.bin''], calls = [Open ''data.bin'', Read ''data.bin'']\<rparr>)
   \<and> read_config_file sample_disk sample_loads ''data.bin'' idle =
       (Inl UnicodeDecodeError,
        \<lparr>held = [], calls = [Open ''data.bin'', Read ''data.bin'', Close ''data.bin'']\<rparr>)
   \<and> sample_disk ''config.json'' = Inr (Inr ''{'')
   \<and> read_config_file sample_disk sample_loads ''config.json'' idle =
       (Inl TypeError,
        \<lparr>held = [],
         calls = [Open ''config.json'', Read ''config.json'', Close ''config.json'']\<rparr>)"
  using risky_function_leaks_read_config_file_releases
    [of sample_disk "''data.bin''" UnicodeDecodeError idle sample_loads "Inl UnicodeDecodeError"]
  by (simp add: sample_disk_def sample_loads_def idle_def risky_function_def
      read_config_file_def with_open_json_load_def json_load_def py_open_def file_read_def
      file_close_def)

subsection \<open>Totals\<close>


lemma Calculate_Total_overflow:
  "too_large_for_float n \<Longrightarrow>
   Calculate_Total fadd [[''price'' \<mapsto> VInt n], [''price'' \<mapsto> VFloat f]] = Inl OverflowError"
  by (simp add: Calculate_Total_def getitem_def)

lemma Calculate_Total_float_prices:
  "Calculate_Total sample_fadd float_items = Inr (VFloat 0x3FD3333333333334)"
  by (simp add: Calculate_Total_def getitem_def float_items_def sample_fadd_def
      too_large_for_float_def)




lemma Calculate_Total_missing_price:
  "Calculate_Total fadd [[''price'' \<mapsto> VInt 3], anonymous] = Inl (KeyError ''price'')"
  by (simp add: Calculate_Total_def getitem_def anonymous_def)

subsection \<open>The user manager\<close>

lemma get_user_by_id_loop_exact:
  "get_user_by_id_loop feq us ident =
     (if list_all carries_id (before_match feq ident us)
      then Inr (find (has_id feq ident) us)
      else Inl (KeyError ''id''))"
proof (induction us)
  case Nil
  show ?case by (simp add: before_match_def)
next
  case (Cons u us)
  show ?case
  proof (cases "u ''id''")
    case None
    then have "\<not> has_id feq ident u" and "\<not> carries_id u"
      by (simp_all add: has_id_def carries_id_def)
    with None show ?thesis
      by (simp add: before_match_def getitem_def)
  next
    case (Some v)
    then have u: "carries_id u" "has_id feq ident u = py_eq feq v ident"
      by (simp_all add: has_id_def carries_id_def)
    show ?thesis
    proof (cases "py_eq feq v ident")
      case True
      with Some u show ?thesis
        by (simp add: before_match_def getitem_def)
    next
      case False
      with Some u Cons.IH show ?thesis
        by (simp add: before_match_def getitem_def)
    qed
  qed
qed

lemma list_all_before_match:
  "list_all carries_id us \<Longrightarrow> list_all carries_id (before_match feq ident us)"
  unfolding before_match_def list_all_iff by (meson set_takeWhileD)

text \<open>
  C9, as the specification words it, fails in a state that stores a user without an
  \<open>id\<close> key before the user looked for: the lookup raises \<open>KeyError\<close>, where the first
  stored user with that identifier is \<open>ann\<close>.
\<close>

theorem get_user_by_id_counterexample:
  "get_user_by_id no_float_eq \<lparr>users = [anonymous, ann]\<rparr> (VInt 1) = Inl (KeyError ''id'')
   \<and> find (has_id no_float_eq (VInt 1)) [anonymous, ann] = Some ann"
  by (simp add: get_user_by_id_def getitem_def has_id_def anonymous_def ann_def)

text \<open>
  C9, amended. In every state whose stored users all carry an \<open>id\<close> key,
  \<open>get_user_by_id\<close> returns the first stored user whose \<open>id\<close> equals the identifier, and
  \<open>None\<close> exactly when no stored user has it. In every state, it does so when the users
  stored before the first one with the identifier all carry an \<open>id\<close> key, and raises
  \<open>KeyError\<close> for the key \<open>id\<close> otherwise. \<open>add_usr\<close> appends the user to the stored
  list, which is otherwise unchanged.
\<close>

theorem get_user_by_id_first_match:
  "(list_all carries_id (users self) \<longrightarrow>
      get_user_by_id feq self ident = Inr (find (has_id feq ident) (users self))
      \<and> (get_user_by_id feq self ident = Inr None
           \<longleftrightarrow> (\<forall>u \<in> set (users self). \<not> has_id feq ident u)))
   \<and> get_user_by_id feq self ident =
       (if list_all carries_id (before_match feq ident (users self))
        then Inr (find (has_id feq ident) (users self))
        else Inl (KeyError ''id''))
   \<and> users (add_usr self user) = users self @ [user]"
  by (auto simp: get_user_by_id_def get_user_by_id_loop_exact list_all_before_match
      add_usr_def find_None_iff)

theorem get_user_by_id_first_match_witness:
  "list_all carries_id (users (add_usr (add_usr user_manager_init ann) bob))
   \<and> get_user_by_id no_float_eq (add_usr (add_usr user_manager_init ann) bob) (VInt 2)
       = Inr (Some bob)
   \<and> get_user_by_id no_float_eq (add_usr (add_usr user_manager_init ann) bob) (VInt 3)
       = Inr None
   \<and> users (add_usr (add_usr user_manager_init ann) bob) = [ann, bob]"
  using get_user_by_id_first_match
    [of "add_usr (add_usr user_manager_init ann) bob" no_float_eq "VInt 2" bob]
  by (simp add: get_user_by_id_def getitem_def add_usr_def user_manager_init_def
      carries_id_def ann_def bob_def)

end
